theory Spec2Isabelle
  imports Main "HOL-Library.Word"
begin

section \<open>Logging: the Mongo-style slog handler (internal/util/logging/mongo\_handler.go)\<close>

text \<open>
  Go's \<^verbatim>\<open>slog.Level\<close> is an \<^verbatim>\<open>int\<close>; the handler only compares levels, so the
  model uses \<^typ>\<open>int\<close> and the order of the integers.
\<close>

type_synonym level = int

definition LevelDebug :: level where "LevelDebug = -4"
definition LevelInfo :: level where "LevelInfo = 0"
definition LevelWarn :: level where "LevelWarn = 4"
definition LevelError :: level where "LevelError = 8"

text \<open>
  \<^verbatim>\<open>slog.Leveler\<close> is an interface with the single method \<^verbatim>\<open>Level()\<close>.  A value of the
  interface is modelled by the level that method reports.
\<close>

datatype leveler = Leveler (Level_of: level)

text \<open>
  \<^verbatim>\<open>NewHandlerOpts\<close> is declared outside the files at hand; its use in the code generator
  (\<^verbatim>\<open>&logging.NewHandlerOpts{Base: "console", Level: slog.LevelDebug}\<close>) shows the two fields
  read here.  \<^verbatim>\<open>Level\<close> is an interface value and may be nil.
\<close>

record newHandlerOpts =
  Base :: string
  Level :: "leveler option"

text \<open>
  \<^verbatim>\<open>type mongoHandler struct { opts *NewHandlerOpts; jsonHandler slog.Handler }\<close>.
  Both fields may be nil in Go: \<^verbatim>\<open>opts\<close> is a pointer and \<^verbatim>\<open>jsonHandler\<close> an interface
  value.  The type of the underlying handler is a parameter.
\<close>

record 'j mongoHandler =
  opts :: "newHandlerOpts option"
  jsonHandler :: "'j option"

datatype panic = NilDereference

text \<open>
  \<^verbatim>\<open>func (h *mongoHandler) Enabled(_ context.Context, l slog.Level) bool\<close>.
  The context argument is ignored by the code (it is bound to \<^verbatim>\<open>_\<close>).  Reading
  \<^verbatim>\<open>h.opts.Level\<close> through a nil \<^verbatim>\<open>opts\<close> panics.
\<close>

definition Enabled :: "'j mongoHandler \<Rightarrow> 'ctx \<Rightarrow> level \<Rightarrow> panic + bool" where
  "Enabled h ctx l =
     (case opts h of
        None \<Rightarrow> Inl NilDereference
      | Some os \<Rightarrow>
          (let minLevel = (case Level os of None \<Rightarrow> LevelInfo | Some lv \<Rightarrow> Level_of lv)
           in Inr (l \<ge> minLevel)))"

text \<open>
  \<^verbatim>\<open>slog.Handler\<close> is an interface.  The handler kept in \<^verbatim>\<open>jsonHandler\<close> comes from the
  standard library; its three methods used here are taken as parameters.
\<close>

type_synonym attr = "string \<times> string"

record 'j handlerMethods =
  enabledM :: "'j \<Rightarrow> level \<Rightarrow> bool"
  withAttrsM :: "'j \<Rightarrow> attr list \<Rightarrow> 'j"
  withGroupM :: "'j \<Rightarrow> string \<Rightarrow> 'j"

text \<open>
  A value of type \<^verbatim>\<open>slog.Handler\<close> as seen by a caller of this package: either a handler
  of the underlying kind or a \<^verbatim>\<open>*mongoHandler\<close>.
\<close>

datatype 'j handler = UnderlyingHandler 'j | MongoHandler "'j mongoHandler"

text \<open>\<^verbatim>\<open>func (h *mongoHandler) WithAttrs(attrs []slog.Attr) slog.Handler\<close>\<close>

definition WithAttrs :: "'j handlerMethods \<Rightarrow> 'j mongoHandler \<Rightarrow> attr list \<Rightarrow> panic + 'j handler" where
  "WithAttrs M h attrs =
     (case jsonHandler h of
        None \<Rightarrow> Inl NilDereference
      | Some j \<Rightarrow> Inr (UnderlyingHandler (withAttrsM M j attrs)))"

text \<open>\<^verbatim>\<open>func (h *mongoHandler) WithGroup(name string) slog.Handler\<close>\<close>

definition WithGroup :: "'j handlerMethods \<Rightarrow> 'j mongoHandler \<Rightarrow> string \<Rightarrow> panic + 'j handler" where
  "WithGroup M h name =
     (case jsonHandler h of
        None \<Rightarrow> Inl NilDereference
      | Some j \<Rightarrow> Inr (UnderlyingHandler (withGroupM M j name)))"

text \<open>Calling \<^verbatim>\<open>Enabled\<close> through the interface dispatches on the dynamic type.\<close>

fun handlerEnabled :: "'j handlerMethods \<Rightarrow> 'j handler \<Rightarrow> 'ctx \<Rightarrow> level \<Rightarrow> panic + bool" where
  "handlerEnabled M (UnderlyingHandler j) ctx l = Inr (enabledM M j l)"
| "handlerEnabled M (MongoHandler h) ctx l = Enabled h ctx l"

text \<open>Example handlers used to evaluate the methods on concrete values.\<close>

definition thresholdMethods :: "level handlerMethods" where
  "thresholdMethods =
     \<lparr>enabledM = (\<lambda>m l. m \<le> l), withAttrsM = (\<lambda>m attrs. m), withGroupM = (\<lambda>m name. m)\<rparr>"

definition strictMongo :: "level mongoHandler" where
  "strictMongo =
     \<lparr>opts = Some \<lparr>Base = ''mongo'', Level = Some (Leveler LevelError)\<rparr>,
      jsonHandler = Some LevelDebug\<rparr>"

definition debugMongo :: "level mongoHandler" where
  "debugMongo =
     \<lparr>opts = Some \<lparr>Base = ''console'', Level = Some (Leveler LevelDebug)\<rparr>,
      jsonHandler = None\<rparr>"

definition defaultMongo :: "level mongoHandler" where
  "defaultMongo = \<lparr>opts = Some \<lparr>Base = ''mongo'', Level = None\<rparr>, jsonHandler = None\<rparr>"

section \<open>Operation modes and the dual-backend dispatcher\<close>

text \<open>
  The dispatcher itself (connection handling, the wire header's printer, the diff
  library) is not among the source files at hand; only its documentation is
  (\<^verbatim>\<open>operation-modes\<close>, with an example of the logged diff).  The definitions of this
  section are therefore modelled from the specification, and checked against the
  documented example where it shows output.
\<close>

subsection \<open>Mode\<close>

text \<open>
  Modelled from the spec: the mode enumeration and its two queries (section 4.1);
  the documentation lists the four values \<^verbatim>\<open>normal\<close>, \<^verbatim>\<open>proxy\<close>, \<^verbatim>\<open>diff-normal\<close>,
  \<^verbatim>\<open>diff-proxy\<close>.
\<close>

datatype mode = Normal | Proxy | DiffNormal | DiffProxy

datatype side = Primary | Secondary

fun needsSecondBackend :: "mode \<Rightarrow> bool" where
  "needsSecondBackend Normal = False"
| "needsSecondBackend Proxy = True"
| "needsSecondBackend DiffNormal = True"
| "needsSecondBackend DiffProxy = True"

fun canonicalSource :: "mode \<Rightarrow> side" where
  "canonicalSource Normal = Primary"
| "canonicalSource DiffNormal = Primary"
| "canonicalSource Proxy = Secondary"
| "canonicalSource DiffProxy = Secondary"

subsection \<open>Wire header and its one-line rendering\<close>

text \<open>
  Modelled from the spec: \<^verbatim>\<open>WireHeader {length: uint32, requestID: int32, responseTo: int32,
  opCode: symbolic name}\<close> (section 3).  The first field is called \<open>msgLength\<close> here
  because \<open>length\<close> is the list function.
\<close>

record wireHeader =
  msgLength :: "32 word"
  requestID :: "32 word"
  responseTo :: "32 word"
  opCode :: string

definition digitChar :: "nat \<Rightarrow> char" where
  "digitChar d = ''0123456789'' ! d"

fun decimal :: "nat \<Rightarrow> string" where
  "decimal n = (if n < 10 then [digitChar n] else decimal (n div 10) @ [digitChar (n mod 10)])"

declare decimal.simps [simp del]

definition decimalInt :: "int \<Rightarrow> string" where
  "decimalInt i = (if i < 0 then CHR ''-'' # decimal (nat (- i)) else decimal (nat i))"

definition padLeft :: "nat \<Rightarrow> string \<Rightarrow> string" where
  "padLeft w s = replicate (w - length s) CHR '' '' @ s"

text \<open>
  Modelled from the spec: the header's printer is not among the source files.  Labels,
  separators and field order are those of the spec's line grammar
  (\<^verbatim>\<open>length: N, id: N, response_to: N, opcode: NAME\<close>); the numbers are right-aligned in
  columns of 5, 4 and 4 characters, as the two header lines of the documented example
  show (\<^verbatim>\<open>length:    63, id:    4, response_to:   13, opcode: OP_MSG\<close> and
  \<^verbatim>\<open>length:   191, id:   53, response_to:   13, opcode: OP_MSG\<close>).  The length is read
  unsigned, the two identifiers signed.
\<close>

definition headerLine :: "wireHeader \<Rightarrow> string" where
  "headerLine h =
     ''length: '' @ padLeft 5 (decimal (unat (msgLength h)))
     @ '', id: '' @ padLeft 4 (decimalInt (sint (requestID h)))
     @ '', response_to: '' @ padLeft 4 (decimalInt (sint (responseTo h)))
     @ '', opcode: '' @ opCode h"

text \<open>The two headers of the documented example.\<close>

definition exampleResHeader :: wireHeader where
  "exampleResHeader = \<lparr>msgLength = 63, requestID = 4, responseTo = 13, opCode = ''OP_MSG''\<rparr>"

definition exampleProxyHeader :: wireHeader where
  "exampleProxyHeader = \<lparr>msgLength = 191, requestID = 53, responseTo = 13, opCode = ''OP_MSG''\<rparr>"

text \<open>
  The line grammar of the spec, \<^verbatim>\<open>length: <uint>, id: <int>, response_to: <int>,
  opcode: <OPCODE_NAME>\<close>, as a recogniser over the whole line: the four labels in this
  order, each number after one or more blanks (the numbers are right-aligned), an
  optional sign before the two identifiers only, and after the last label and one blank
  the opcode name, a non-empty word of capital letters and underscores, up to the end
  of the line.
\<close>

fun dropPrefix :: "string \<Rightarrow> string \<Rightarrow> string option" where
  "dropPrefix [] s = Some s"
| "dropPrefix (p # ps) [] = None"
| "dropPrefix (p # ps) (c # cs) = (if p = c then dropPrefix ps cs else None)"

definition isDigit :: "char \<Rightarrow> bool" where
  "isDigit c = (c \<in> set ''0123456789'')"

definition isNameChar :: "char \<Rightarrow> bool" where
  "isNameChar c = (c \<in> set ''ABCDEFGHIJKLMNOPQRSTUVWXYZ_'')"

definition validOpName :: "string \<Rightarrow> bool" where
  "validOpName s = (s \<noteq> [] \<and> list_all isNameChar s)"

definition skipBlanks :: "string \<Rightarrow> string option" where
  "skipBlanks s =
     (case s of
        [] \<Rightarrow> None
      | c # cs \<Rightarrow> if c = CHR '' '' then Some (dropWhile (\<lambda>b. b = CHR '' '') cs) else None)"

definition skipUInt :: "string \<Rightarrow> string option" where
  "skipUInt s = (if takeWhile isDigit s = [] then None else Some (dropWhile isDigit s))"

definition skipInt :: "string \<Rightarrow> string option" where
  "skipInt s = (case s of [] \<Rightarrow> None | c # cs \<Rightarrow> if c = CHR ''-'' then skipUInt cs else skipUInt s)"

definition headerFields :: "string \<Rightarrow> string option" where
  "headerFields s =
     Option.bind (Option.bind (Option.bind (Option.bind (Option.bind (Option.bind
     (Option.bind (Option.bind (Option.bind (dropPrefix ''length:'' s)
       skipBlanks) skipUInt)
       (dropPrefix '', id:'')) skipBlanks) skipInt)
       (dropPrefix '', response_to:'')) skipBlanks) skipInt)
       (dropPrefix '', opcode: '')"

definition headerGrammar :: "string \<Rightarrow> bool" where
  "headerGrammar s = (case headerFields s of None \<Rightarrow> False | Some name \<Rightarrow> validOpName name)"

subsection \<open>Line diff: alignment, edit script, patch\<close>

text \<open>
  Modelled from the spec: the differ computes a minimal line-level edit script between
  two line sequences with a longest-common-subsequence diff (section 4.4); the diff
  library is not part of the repository.  \<open>lcsOps\<close> aligns the two sequences: equal
  heads are kept, otherwise the cheaper of deleting the left head and inserting the
  right head is taken, a deletion first when both cost the same (as a unified diff
  prints a replaced line: \<^verbatim>\<open>-old\<close> before \<^verbatim>\<open>+new\<close>).
\<close>

datatype 'a op = Keep 'a | Del 'a | Ins 'a

fun changed :: "'a op \<Rightarrow> bool" where
  "changed (Keep x) = False"
| "changed (Del x) = True"
| "changed (Ins x) = True"

definition cost :: "'a op list \<Rightarrow> nat" where
  "cost os = length (filter changed os)"

fun lcsOps :: "'a list \<Rightarrow> 'a list \<Rightarrow> 'a op list" where
  "lcsOps [] ys = map Ins ys"
| "lcsOps (x # xs) [] = map Del (x # xs)"
| "lcsOps (x # xs) (y # ys) =
     (if x = y then Keep x # lcsOps xs ys
      else (let d = Del x # lcsOps xs (y # ys);
                i = Ins y # lcsOps (x # xs) ys
            in if cost d \<le> cost i then d else i))"

text \<open>The left and the right sequence an alignment speaks about.\<close>

fun source :: "'a op list \<Rightarrow> 'a list" where
  "source [] = []"
| "source (Keep x # os) = x # source os"
| "source (Del x # os) = x # source os"
| "source (Ins x # os) = source os"

fun target :: "'a op list \<Rightarrow> 'a list" where
  "target [] = []"
| "target (Keep x # os) = x # target os"
| "target (Del x # os) = target os"
| "target (Ins x # os) = x # target os"

text \<open>
  The edit script holds the changes only, each with the (0-based) position in the
  left sequence at which it applies; identical inputs give the empty script.
\<close>

datatype 'a edit = Delete nat 'a | Insert nat 'a

fun scriptOf :: "nat \<Rightarrow> 'a op list \<Rightarrow> 'a edit list" where
  "scriptOf i [] = []"
| "scriptOf i (Keep x # os) = scriptOf (Suc i) os"
| "scriptOf i (Del x # os) = Delete i x # scriptOf (Suc i) os"
| "scriptOf i (Ins y # os) = Insert i y # scriptOf i os"

definition diff :: "'a list \<Rightarrow> 'a list \<Rightarrow> 'a edit list" where
  "diff xs ys = scriptOf 0 (lcsOps xs ys)"

text \<open>
  Applying a script to a sequence, reading it from position \<open>i\<close>.  A script that does
  not fit the sequence (a deletion of a line that is not there or is a different line,
  positions out of order) is rejected.
\<close>

fun patch :: "nat \<Rightarrow> 'a edit list \<Rightarrow> 'a list \<Rightarrow> 'a list option" where
  "patch i [] xs = Some xs"
| "patch i (Insert j y # es) xs =
     (if j = i then map_option (Cons y) (patch i es xs)
      else if i < j then
        (case xs of [] \<Rightarrow> None
         | x # xs' \<Rightarrow> map_option (Cons x) (patch (Suc i) (Insert j y # es) xs'))
      else None)"
| "patch i (Delete j y # es) xs =
     (case xs of [] \<Rightarrow> None
      | x # xs' \<Rightarrow>
          if j = i then (if x = y then patch (Suc i) es xs' else None)
          else if i < j then map_option (Cons x) (patch (Suc i) (Delete j y # es) xs')
          else None)"

definition applyScript :: "'a edit list \<Rightarrow> 'a list \<Rightarrow> 'a list option" where
  "applyScript es xs = patch 0 es xs"

text \<open>The position at which an edit applies.\<close>

fun position :: "'a edit \<Rightarrow> nat" where
  "position (Delete i x) = i"
| "position (Insert i x) = i"

subsection \<open>Documents and their canonical rendering\<close>

text \<open>
  Modelled from the spec: a document is an ordered mapping of field names to typed
  values, opaque to the dispatcher beyond structural comparison (section 3); the value
  codec is outside the dispatcher.  A scalar is represented by its textual literal,
  which is all the rendering uses of it.
\<close>

datatype bvalue =
    Scalar string
  | Document "(string \<times> bvalue) list"
  | Array "bvalue list"

type_synonym document = "(string \<times> bvalue) list"

definition quoted :: "string \<Rightarrow> string" where
  "quoted k = CHR 0x22 # k @ [CHR 0x22]"

definition indent :: "nat \<Rightarrow> string" where
  "indent n = replicate n CHR '' ''"

text \<open>
  Modelled from the spec: the canonical, deterministic multi-line rendering of section
  4.4 (key order as stored, nested documents and arrays indented).  One line per
  scalar, an opening and a closing line per document or array, two blanks of
  indentation per level and a trailing comma, the shape of the body lines of the
  documented example (\<^verbatim>\<open>"you": "127.0.0.1:64795",\<close> between \<^verbatim>\<open>"Document": {\<close> and \<^verbatim>\<open>},\<close>).
\<close>

fun renderValue :: "nat \<Rightarrow> string \<Rightarrow> bvalue \<Rightarrow> string list" where
  "renderValue n pre (Scalar lit) = [indent n @ pre @ lit @ '','']"
| "renderValue n pre (Document fs) =
     [indent n @ pre @ ''{'']
     @ concat (map (\<lambda>kv. renderValue (n + 2) (quoted (fst kv) @ '': '') (snd kv)) fs)
     @ [indent n @ ''},'']"
| "renderValue n pre (Array vs) =
     [indent n @ pre @ ''['']
     @ concat (map (renderValue (n + 2) []) vs)
     @ [indent n @ ''],'']"

definition render :: "document \<Rightarrow> string list" where
  "render d = renderValue 0 [] (Document d)"

text \<open>The two bodies of the documented example.\<close>

definition exampleResBody :: document where
  "exampleResBody =
     [(''you'', Scalar (quoted ''127.0.0.1:64795'')), (''ok'', Scalar ''1.0'')]"

definition exampleProxyBody :: document where
  "exampleProxyBody =
     [(''you'', Scalar (quoted ''192.168.65.1:21365'')), (''ok'', Scalar ''1.0'')]"

subsection \<open>Unified diff text\<close>

text \<open>
  Modelled from the spec: the renderer of section 4.5.  A hunk shows every changed
  line together with up to \<open>contextWidth\<close> unchanged lines on either side; hunks whose
  contexts touch are one hunk.  The hunk header counts lines from 1 and, as in the
  documented example (\<^verbatim>\<open>@@ -1 +1 @@\<close>), leaves the length out when it is 1.  Changed
  lines carry \<^verbatim>\<open>-\<close> or \<^verbatim>\<open>+\<close>, context lines a blank, as the example's body hunk shows.
\<close>

definition contextWidth :: nat where
  "contextWidth = 3"

definition shown :: "'a op list \<Rightarrow> nat \<Rightarrow> bool" where
  "shown os i =
     list_ex (\<lambda>j. changed (os ! j) \<and> i \<le> j + contextWidth \<and> j \<le> i + contextWidth)
       [0..<length os]"

definition marked :: "'a op list \<Rightarrow> ('a op \<times> bool) list" where
  "marked os = map (\<lambda>i. (os ! i, shown os i)) [0..<length os]"

record hunk =
  beforeA :: nat
  beforeB :: nat
  hunkOps :: "string op list"

fun flush :: "nat \<Rightarrow> nat \<Rightarrow> string op list \<Rightarrow> hunk list" where
  "flush a b [] = []"
| "flush a b (x # acc) = [\<lparr>beforeA = a, beforeB = b, hunkOps = x # acc\<rparr>]"

text \<open>
  \<open>a\<close> and \<open>b\<close> count the lines of the left and of the right text before the hunk
  being collected in \<open>acc\<close>.
\<close>

fun groupHunks :: "nat \<Rightarrow> nat \<Rightarrow> string op list \<Rightarrow> (string op \<times> bool) list \<Rightarrow> hunk list" where
  "groupHunks a b acc [] = flush a b acc"
| "groupHunks a b acc ((x, True) # rest) = groupHunks a b (acc @ [x]) rest"
| "groupHunks a b acc ((x, False) # rest) =
     flush a b acc
     @ groupHunks (a + length (source (acc @ [x]))) (b + length (target (acc @ [x]))) [] rest"

definition rangeText :: "nat \<Rightarrow> nat \<Rightarrow> string" where
  "rangeText skipped len =
     (if len = 1 then decimal (skipped + 1)
      else if len = 0 then decimal skipped @ '',0''
      else decimal (skipped + 1) @ '','' @ decimal len)"

fun opLine :: "string op \<Rightarrow> string" where
  "opLine (Keep l) = CHR '' '' # l"
| "opLine (Del l) = CHR ''-'' # l"
| "opLine (Ins l) = CHR ''+'' # l"

definition hunkText :: "hunk \<Rightarrow> string list" where
  "hunkText h =
     (''@@ -'' @ rangeText (beforeA h) (length (source (hunkOps h)))
      @ '' +'' @ rangeText (beforeB h) (length (target (hunkOps h))) @ '' @@'')
     # map opLine (hunkOps h)"

definition unifiedDiff :: "string \<Rightarrow> string \<Rightarrow> string list \<Rightarrow> string list \<Rightarrow> string list" where
  "unifiedDiff fromFile toFile a b =
     (let hs = groupHunks 0 0 [] (marked (lcsOps a b))
      in if hs = [] then []
         else (''--- '' @ fromFile) # (''+++ '' @ toFile) # concat (map hunkText hs))"

subsection \<open>Header differ, body differ and the diff block\<close>

text \<open>
  Modelled from the spec: \<^verbatim>\<open>WireResponse {header, body}\<close> and
  \<^verbatim>\<open>DiffReport {headerDiff: optional text, bodyDiff: optional text}\<close> (section 3), the two
  differs (sections 4.3 and 4.4) and the block of section 4.5.  A text is absent when
  its diff has no hunk.
\<close>

record wireResponse =
  header :: wireHeader
  body :: document

record diffReport =
  headerDiff :: "string list option"
  bodyDiff :: "string list option"

definition textOpt :: "string list \<Rightarrow> string list option" where
  "textOpt t = (if t = [] then None else Some t)"

definition headerDiffer :: "wireHeader \<Rightarrow> wireHeader \<Rightarrow> string list option" where
  "headerDiffer h1 h2 =
     textOpt (unifiedDiff ''res header'' ''proxy header'' [headerLine h1] [headerLine h2])"

definition bodyDiffer :: "document \<Rightarrow> document \<Rightarrow> string list option" where
  "bodyDiffer d1 d2 = textOpt (unifiedDiff ''res body'' ''proxy body'' (render d1) (render d2))"

definition diffResponses :: "wireResponse \<Rightarrow> wireResponse \<Rightarrow> diffReport" where
  "diffResponses res proxy =
     \<lparr>headerDiff = headerDiffer (header res) (header proxy),
      bodyDiff = bodyDiffer (body res) (body proxy)\<rparr>"

definition textOf :: "string list option \<Rightarrow> string list" where
  "textOf t = (case t of None \<Rightarrow> [] | Some ls \<Rightarrow> ls)"

definition renderBlock :: "diffReport \<Rightarrow> string list option" where
  "renderBlock r =
     (if headerDiff r = None \<and> bodyDiff r = None then None
      else Some ([''Header diff:''] @ textOf (headerDiff r) @ [[]]
                 @ [''Body diff:''] @ textOf (bodyDiff r)))"

definition exampleRes :: wireResponse where
  "exampleRes = \<lparr>header = exampleResHeader, body = exampleResBody\<rparr>"

definition exampleProxy :: wireResponse where
  "exampleProxy = \<lparr>header = exampleProxyHeader, body = exampleProxyBody\<rparr>"

subsection \<open>Backends, the dual dispatcher and the mode controller\<close>

text \<open>
  Modelled from the spec: the backend capability of section 6.  A call returns a
  response or a typed error: a transport failure, a timeout, or a well-formed response
  that carries a command error.  The last one is a response like any other for the
  differs (section 7); the first two leave the caller without a response.
\<close>

datatype callError = BackendUnavailable | Timeout | CommandError wireResponse

type_synonym outcome = "callError + wireResponse"

type_synonym deadline = nat

type_synonym backend = "wireHeader \<Rightarrow> document \<Rightarrow> deadline \<Rightarrow> outcome"

fun responseOf :: "outcome \<Rightarrow> wireResponse option" where
  "responseOf (Inr r) = Some r"
| "responseOf (Inl (CommandError r)) = Some r"
| "responseOf (Inl BackendUnavailable) = None"
| "responseOf (Inl Timeout) = None"

text \<open>
  Modelled from the spec: \<^verbatim>\<open>DispatchConfig {mode, proxyAddress}\<close> (section 3).  The
  address is used to build the secondary backend, outside the dispatcher.
\<close>

record dispatchConfig =
  mode :: mode
  proxyAddress :: "string option"

text \<open>
  Whether the primary backend is invoked.  Sections 4.2 and 4.6 of the spec issue the
  primary call in every mode; its section 8 (\<^verbatim>\<open>Mode=proxy: exactly one (secondary) call
  is issued\<close>) and the documentation (\<^verbatim>\<open>To forward all requests to proxy and return them
  to the client, use proxy operation mode\<close>) read as if proxy mode did not.  The two
  readings differ in proxy mode only, and the choice is the parameter \<open>always\<close>.
\<close>

fun needsFirstBackend :: "bool \<Rightarrow> mode \<Rightarrow> bool" where
  "needsFirstBackend always Proxy = always"
| "needsFirstBackend always Normal = True"
| "needsFirstBackend always DiffNormal = True"
| "needsFirstBackend always DiffProxy = True"

text \<open>
  Modelled from the spec: the dual dispatcher of section 4.2.  Each call that is issued
  is recorded, and its outcome returned independently of the other's.  The two calls
  are unordered; the record lists the primary first.
\<close>

record dualResult =
  primary :: "outcome option"
  secondary :: "outcome option"
  issued :: "side list"

definition dualDispatch ::
  "bool \<Rightarrow> dispatchConfig \<Rightarrow> backend \<Rightarrow> backend \<Rightarrow> wireHeader \<Rightarrow> document \<Rightarrow> deadline \<Rightarrow> dualResult"
where
  "dualDispatch always cfg prim sec h d t =
     (let first = needsFirstBackend always (mode cfg);
          second = needsSecondBackend (mode cfg)
      in \<lparr>primary = (if first then Some (prim h d t) else None),
          secondary = (if second then Some (sec h d t) else None),
          issued = (if first then [Primary] else []) @ (if second then [Secondary] else [])\<rparr>)"

fun outcomeOf :: "side \<Rightarrow> dualResult \<Rightarrow> outcome option" where
  "outcomeOf Primary r = primary r"
| "outcomeOf Secondary r = secondary r"

fun otherSide :: "side \<Rightarrow> side" where
  "otherSide Primary = Secondary"
| "otherSide Secondary = Primary"

text \<open>
  Modelled from the spec: the mode controller of section 4.6.  The two responses go to
  the differs when both were obtained (step 3); a call that was not issued, or that
  ended without a response, leaves the pair incomplete and the diff is skipped (step
  5, and the last scenario of section 8).
\<close>

definition diffInput :: "dualResult \<Rightarrow> (wireResponse \<times> wireResponse) option" where
  "diffInput r =
     (case (Option.bind (primary r) responseOf, Option.bind (secondary r) responseOf) of
        (Some p, Some s) \<Rightarrow> Some (p, s)
      | _ \<Rightarrow> None)"

datatype logEntry = DiffBlock "string list" | CallFailed side callError

definition diffLog :: "dualResult \<Rightarrow> logEntry list" where
  "diffLog r =
     (case diffInput r of
        None \<Rightarrow> []
      | Some (p, s) \<Rightarrow>
          (case renderBlock (diffResponses p s) of None \<Rightarrow> [] | Some b \<Rightarrow> [DiffBlock b]))"

text \<open>
  The failure of the side that is not selected is swallowed into a log line (section
  7).  A response carrying a command error is not such a failure: it is diffed.
\<close>

definition failureLog :: "side \<Rightarrow> dualResult \<Rightarrow> logEntry list" where
  "failureLog sd r =
     (case outcomeOf sd r of
        Some (Inl e) \<Rightarrow> (if responseOf (Inl e) = None then [CallFailed sd e] else [])
      | _ \<Rightarrow> [])"

record handled =
  reply :: "outcome option"
  logged :: "logEntry list"
  calls :: "side list"

definition handleRequest ::
  "bool \<Rightarrow> dispatchConfig \<Rightarrow> backend \<Rightarrow> backend \<Rightarrow> wireHeader \<Rightarrow> document \<Rightarrow> deadline \<Rightarrow> handled"
where
  "handleRequest always cfg prim sec h d t =
     (let r = dualDispatch always cfg prim sec h d t;
          selected = canonicalSource (mode cfg)
      in \<lparr>reply = outcomeOf selected r,
          logged = diffLog r @ failureLog (otherSide selected) r,
          calls = issued r\<rparr>)"

text \<open>Backends for the scenarios of section 8.\<close>

definition resBackend :: backend where
  "resBackend h d t = Inr exampleRes"

definition proxyBackend :: backend where
  "proxyBackend h d t = Inr exampleProxy"

definition downBackend :: backend where
  "downBackend h d t = Inl BackendUnavailable"

definition requestHeader :: wireHeader where
  "requestHeader = \<lparr>msgLength = 16, requestID = 13, responseTo = 0, opCode = ''OP_MSG''\<rparr>"

definition config :: "mode \<Rightarrow> dispatchConfig" where
  "config m = \<lparr>mode = m, proxyAddress = (if m = Normal then None else Some ''127.0.0.1:47017'')\<rparr>"

section \<open>Verified properties\<close>

subsection \<open>Decimal numbers and the header line\<close>

lemma dropPrefix_append: "dropPrefix p (p @ r) = Some r"
  by (induction p) auto

lemma digitChar_isDigit: "d < 10 \<Longrightarrow> isDigit (digitChar d)"
proof -
  assume "d < 10"
  then have "d \<in> {0,1,2,3,4,5,6,7,8,9}" by auto
  then show ?thesis by (auto simp: isDigit_def digitChar_def)
qed

lemma decimal_digits: "list_all isDigit (decimal n)"
proof (induction n rule: decimal.induct)
  case (1 n)
  show ?case
  proof (cases "n < 10")
    case True
    then show ?thesis by (subst decimal.simps) (simp add: digitChar_isDigit)
  next
    case False
    with 1 show ?thesis by (subst decimal.simps) (simp add: digitChar_isDigit)
  qed
qed

lemma decimal_nonempty: "decimal n \<noteq> []"
  by (subst decimal.simps) simp

lemma skipUInt_digits:
  assumes "ds \<noteq> []" "list_all isDigit ds" "r = [] \<or> \<not> isDigit (hd r)"
  shows "skipUInt (ds @ r) = Some r"
proof -
  have t: "takeWhile isDigit (ds @ r) = ds @ takeWhile isDigit r"
    using assms(2) by (simp add: takeWhile_append2 list_all_iff)
  have d: "dropWhile isDigit (ds @ r) = dropWhile isDigit r"
    using assms(2) by (simp add: dropWhile_append2 list_all_iff)
  have "dropWhile isDigit r = r"
    using assms(3) by (cases r) auto
  with t d assms(1) show ?thesis by (simp add: skipUInt_def)
qed

lemma skipUInt_decimal: "\<not> isDigit c \<Longrightarrow> skipUInt (decimal n @ c # r) = Some (c # r)"
  by (rule skipUInt_digits) (simp_all add: decimal_nonempty decimal_digits)

lemma not_digit: "\<not> isDigit CHR ''-''" "\<not> isDigit CHR '',''"  "\<not> isDigit CHR '' ''"
  by (simp_all add: isDigit_def)

lemma decimal_hd_digit: "isDigit (hd (decimal n))"
  using decimal_digits [of n] decimal_nonempty [of n] by (cases "decimal n") auto

lemma skipInt_decimalInt: "\<not> isDigit c \<Longrightarrow> skipInt (decimalInt i @ c # r) = Some (c # r)"
proof -
  assume c: "\<not> isDigit c"
  show ?thesis
  proof (cases "i < 0")
    case True
    then show ?thesis using c by (simp add: skipInt_def decimalInt_def skipUInt_decimal)
  next
    case False
    obtain d ds where ds: "decimal (nat i) = d # ds"
      using decimal_nonempty [of "nat i"] by (cases "decimal (nat i)") auto
    have "isDigit d" using decimal_hd_digit [of "nat i"] ds by simp
    then have "d \<noteq> CHR ''-''" using not_digit by auto
    moreover have "skipUInt (d # ds @ c # r) = Some (c # r)"
      using skipUInt_decimal [OF c, of "nat i" r] ds by simp
    ultimately show ?thesis using False ds by (simp add: skipInt_def decimalInt_def)
  qed
qed

lemma skipBlanks_padLeft:
  assumes "s \<noteq> []" "hd s \<noteq> CHR '' ''"
  shows "skipBlanks (CHR '' '' # padLeft w s @ r) = Some (s @ r)"
proof -
  obtain c cs where s: "s = c # cs" using assms(1) by (cases s) auto
  have "dropWhile (\<lambda>b. b = CHR '' '') (replicate k CHR '' '' @ c # cs @ r) = c # cs @ r" for k
    using assms(2) s by (induction k) auto
  then show ?thesis using s by (simp add: skipBlanks_def padLeft_def)
qed

lemma decimal_hd_not_blank: "hd (decimal n) \<noteq> CHR '' ''"
  using decimal_hd_digit [of n] not_digit by auto

lemma decimalInt_nonempty: "decimalInt i \<noteq> []"
  by (simp add: decimalInt_def decimal_nonempty)

lemma decimalInt_hd_not_blank: "hd (decimalInt i) \<noteq> CHR '' ''"
  by (simp add: decimalInt_def decimal_hd_not_blank)

lemma headerFields_headerLine: "headerFields (headerLine h) = Some (opCode h)"
proof -
  have 1: "dropPrefix ''length:'' (headerLine h) =
     Some (CHR '' '' # padLeft 5 (decimal (unat (msgLength h)))
       @ '', id: '' @ padLeft 4 (decimalInt (sint (requestID h)))
       @ '', response_to: '' @ padLeft 4 (decimalInt (sint (responseTo h)))
       @ '', opcode: '' @ opCode h)"
    unfolding headerLine_def by simp
  show ?thesis
    unfolding headerFields_def 1
    using skipBlanks_padLeft [OF decimal_nonempty decimal_hd_not_blank]
      skipBlanks_padLeft [OF decimalInt_nonempty decimalInt_hd_not_blank]
      skipUInt_decimal [OF not_digit(2)]
      skipInt_decimalInt [OF not_digit(2)]
    by simp
qed

subsection \<open>Alignment, edit script and patch\<close>

lemma source_map_Ins: "source (map Ins ys) = []"
  by (induction ys) auto
lemma target_map_Ins: "target (map Ins ys) = ys"
  by (induction ys) auto
lemma source_map_Del: "source (map Del xs) = xs"
  by (induction xs) auto
lemma target_map_Del: "target (map Del xs) = []"
  by (induction xs) auto

lemma source_lcsOps: "source (lcsOps xs ys) = xs"
  by (induction xs ys rule: lcsOps.induct)
     (simp_all add: source_map_Ins source_map_Del Let_def)

lemma target_lcsOps: "target (lcsOps xs ys) = ys"
  by (induction xs ys rule: lcsOps.induct)
     (simp_all add: target_map_Ins target_map_Del Let_def)


lemma scriptOf_positions: "e \<in> set (scriptOf k os) \<Longrightarrow> k \<le> position e"
proof (induction os arbitrary: k)
  case Nil
  then show ?case by simp
next
  case (Cons a os)
  then show ?case by (cases a) (auto dest: Suc_leD)
qed

lemma patch_skip:
  assumes "\<forall>e \<in> set es. i < position e"
  shows "patch i es (x # xs) = map_option (Cons x) (patch (Suc i) es xs)"
proof (cases es)
  case Nil
  then show ?thesis by simp
next
  case (Cons e es')
  with assms have "i < position e" by simp
  with Cons show ?thesis by (cases e) auto
qed

lemma patch_scriptOf: "patch i (scriptOf i os) (source os) = Some (target os)"
proof (induction os arbitrary: i)
  case Nil
  then show ?case by simp
next
  case (Cons a os)
  show ?case
  proof (cases a)
    case (Keep x)
    have "\<forall>e \<in> set (scriptOf (Suc i) os). i < position e"
      by (auto dest: scriptOf_positions)
    then show ?thesis using Keep Cons.IH [of "Suc i"] by (simp add: patch_skip)
  next
    case (Del x)
    then show ?thesis using Cons.IH [of "Suc i"] by simp
  next
    case (Ins x)
    then show ?thesis using Cons.IH [of i] by simp
  qed
qed

lemma applyScript_diff: "applyScript (diff xs ys) xs = Some ys"
  using patch_scriptOf [of 0 "lcsOps xs ys"]
  by (simp add: applyScript_def diff_def source_lcsOps target_lcsOps)

lemma lcsOps_same: "lcsOps xs xs = map Keep xs"
  by (induction xs) auto

lemma scriptOf_map_Keep: "scriptOf i (map Keep xs) = []"
  by (induction xs arbitrary: i) auto

lemma diff_same: "diff xs xs = []"
  by (simp add: diff_def lcsOps_same scriptOf_map_Keep)

lemma scriptOf_empty_iff: "scriptOf i os = [] \<longleftrightarrow> cost os = 0"
proof (induction os arbitrary: i)
  case Nil
  then show ?case by (simp add: cost_def)
next
  case (Cons a os)
  then show ?case by (cases a) (auto simp: cost_def)
qed

lemma cost0_source_target: "cost os = 0 \<Longrightarrow> source os = target os"
proof (induction os)
  case Nil
  then show ?case by simp
next
  case (Cons a os)
  then show ?case by (cases a) (auto simp: cost_def)
qed

lemma diff_empty_iff: "diff xs ys = [] \<longleftrightarrow> xs = ys"
proof
  assume "diff xs ys = []"
  then have "cost (lcsOps xs ys) = 0" by (simp add: diff_def scriptOf_empty_iff)
  from cost0_source_target [OF this] show "xs = ys" by (simp add: source_lcsOps target_lcsOps)
next
  assume "xs = ys" then show "diff xs ys = []" by (simp add: diff_same)
qed

lemma cost_Cons: "cost (a # os) = (if changed a then Suc (cost os) else cost os)"
  by (simp add: cost_def)

lemma cost_map_Ins: "cost (map Ins ys) = length ys"
  by (induction ys) (simp_all add: cost_def)
lemma cost_map_Del: "cost (map Del ys) = length ys"
  by (induction ys) (simp_all add: cost_def)

lemma cost_ge_length_target: "source os = [] \<Longrightarrow> length (target os) \<le> cost os"
proof (induction os)
  case Nil then show ?case by simp
next
  case (Cons a os) then show ?case by (cases a) (auto simp: cost_Cons)
qed
lemma cost_ge_length_source: "target os = [] \<Longrightarrow> length (source os) \<le> cost os"
proof (induction os)
  case Nil then show ?case by simp
next
  case (Cons a os) then show ?case by (cases a) (auto simp: cost_Cons)
qed

subsection \<open>The Mongo-style log handler\<close>

lemma Enabled_nil_opts: "Enabled \<lparr>opts = None, jsonHandler = j\<rparr> ctx l = Inl NilDereference"
  by (simp add: Enabled_def)

text \<open>
  C9.  For a handler whose \<^verbatim>\<open>opts\<close> pointer is set, \<^verbatim>\<open>Enabled\<close> returns true exactly when
  the level is at least the minimum level: the level reported by \<^verbatim>\<open>opts.Level\<close> when that
  interface value is non-nil, \<^verbatim>\<open>slog.LevelInfo\<close> otherwise.  The answer depends on nothing
  else: neither on the context nor on the other field of the handler; the function
  returns only the boolean, so nothing is changed.
\<close>

theorem Enabled_minimum_level:
  assumes "opts h = Some os"
  shows "(Level os = None \<longrightarrow> Enabled h ctx l = Inr (LevelInfo \<le> l))
       \<and> (\<forall>lv. Level os = Some lv \<longrightarrow> Enabled h ctx l = Inr (Level_of lv \<le> l))
       \<and> Enabled (h\<lparr>jsonHandler := j'\<rparr>) ctx' l = Enabled h ctx l"
  using assms by (simp add: Enabled_def)

theorem Enabled_minimum_level_witness:
  "opts debugMongo = Some \<lparr>Base = ''console'', Level = Some (Leveler LevelDebug)\<rparr>
   \<and> Enabled debugMongo () LevelInfo = Inr True
   \<and> Enabled debugMongo () (LevelDebug - 1) = Inr False
   \<and> opts defaultMongo = Some \<lparr>Base = ''mongo'', Level = None\<rparr>
   \<and> Enabled defaultMongo () LevelInfo = Inr True
   \<and> Enabled defaultMongo () LevelDebug = Inr False"
proof -
  have d: "opts debugMongo = Some \<lparr>Base = ''console'', Level = Some (Leveler LevelDebug)\<rparr>"
    by (simp add: debugMongo_def)
  have n: "opts defaultMongo = Some \<lparr>Base = ''mongo'', Level = None\<rparr>"
    by (simp add: defaultMongo_def)
  from Enabled_minimum_level [OF d, of "()" LevelInfo None "()"]
       Enabled_minimum_level [OF d, of "()" "LevelDebug - 1" None "()"]
       Enabled_minimum_level [OF n, of "()" LevelInfo None "()"]
       Enabled_minimum_level [OF n, of "()" LevelDebug None "()"]
  show ?thesis using d n
    by (simp add: LevelDebug_def LevelInfo_def)
qed

text \<open>
  C10.  For a handler whose \<^verbatim>\<open>jsonHandler\<close> is set, \<^verbatim>\<open>WithAttrs\<close> and \<^verbatim>\<open>WithGroup\<close> return
  what the underlying handler's own method returns, never a \<^verbatim>\<open>mongoHandler\<close>; the
  \<^verbatim>\<open>Enabled\<close> decision of the returned handler is the underlying handler's, and the
  \<^verbatim>\<open>opts\<close> of the Mongo handler (hence its minimum level) plays no part in it.
\<close>

theorem With_returns_underlying:
  assumes "jsonHandler h = Some j"
  shows "WithAttrs M h attrs = Inr (UnderlyingHandler (withAttrsM M j attrs))
       \<and> WithGroup M h g = Inr (UnderlyingHandler (withGroupM M j g))
       \<and> (\<forall>m. WithAttrs M h attrs \<noteq> Inr (MongoHandler m) \<and> WithGroup M h g \<noteq> Inr (MongoHandler m))
       \<and> (\<forall>d. WithAttrs M h attrs = Inr d \<longrightarrow>
             handlerEnabled M d ctx l = Inr (enabledM M (withAttrsM M j attrs) l))
       \<and> (\<forall>d. WithGroup M h g = Inr d \<longrightarrow>
             handlerEnabled M d ctx l = Inr (enabledM M (withGroupM M j g) l))
       \<and> WithAttrs M (h\<lparr>opts := os'\<rparr>) attrs = WithAttrs M h attrs
       \<and> WithGroup M (h\<lparr>opts := os'\<rparr>) g = WithGroup M h g"
  using assms by (auto simp add: WithAttrs_def WithGroup_def)

theorem With_returns_underlying_witness:
  "jsonHandler strictMongo = Some LevelDebug
   \<and> Enabled strictMongo () LevelInfo = Inr False
   \<and> WithAttrs thresholdMethods strictMongo [(''k'', ''v'')] = Inr (UnderlyingHandler LevelDebug)
   \<and> WithGroup thresholdMethods strictMongo ''g'' = Inr (UnderlyingHandler LevelDebug)
   \<and> handlerEnabled thresholdMethods (UnderlyingHandler LevelDebug) () LevelInfo = Inr True"
proof -
  have j: "jsonHandler strictMongo = Some LevelDebug"
    by (simp add: strictMongo_def)
  have e: "Enabled strictMongo () LevelInfo = Inr False"
    by (simp add: strictMongo_def Enabled_def LevelInfo_def LevelError_def)
  from With_returns_underlying [OF j, of thresholdMethods "[(''k'', ''v'')]" "''g''" "()" LevelInfo None]
  show ?thesis using j e
    by (simp add: thresholdMethods_def LevelDebug_def LevelInfo_def)
qed

end
